theory Spec2Isabelle
  imports Complex_Main "HOL-Library.Multiset"
begin

section \<open>DTMFGenerator.py: data model\<close>

text \<open>
  Python values as far as the module inspects them: the candidates handed to the
  \<open>dtmf_sequence\<close> setter are arbitrary objects (JSON decoding yields exactly these
  shapes), and the validator dispatches on \<open>type(...)\<close>. A Python float is a real
  number. The quotient of two ints is the correctly rounded double (\<open>binary64\<close>
  below); the expression of one sample, which calls \<open>math.sin\<close> of the platform, is
  taken over the exact reals: \<open>sin\<close>, \<open>pi\<close>, \<open>*\<close>, \<open>+\<close> and \<open>/\<close> are the exact
  operations there.
\<close>

datatype pyval =
    PyNone
  | PyBool bool
  | PyInt int
  | PyFloat real
  | PyStr string
  | PyList "pyval list"
  | PyTuple "pyval list"
  | PySet "pyval list"
  | PyDict "(pyval \<times> pyval) list"

datatype pytype = TNone | TBool | TInt | TFloat | TStr | TList | TTuple | TSet | TDict

fun type_of :: "pyval \<Rightarrow> pytype" where
  "type_of PyNone = TNone"
| "type_of (PyBool _) = TBool"
| "type_of (PyInt _) = TInt"
| "type_of (PyFloat _) = TFloat"
| "type_of (PyStr _) = TStr"
| "type_of (PyList _) = TList"
| "type_of (PyTuple _) = TTuple"
| "type_of (PySet _) = TSet"
| "type_of (PyDict _) = TDict"

datatype py_error =
    AttributeError | KeyError | IndexError | TypeError | AssertionError
  | StructError | JSONDecodeError | OverflowError | ZeroDivisionError

text \<open>Module constants (lines 11-17).\<close>

definition ROW_FREQ :: "int list" where
  "ROW_FREQ = [697, 770, 852, 941]"

definition COL_FREQ :: "int list" where
  "COL_FREQ = [1209, 1336, 1477, 1633]"

definition SAMPLE_RATE :: int where
  "SAMPLE_RATE = 44100"

definition SAMPLE_WIDTH :: nat where
  "SAMPLE_WIDTH = 2"

definition NUMBER_OF_CHANNELS :: nat where
  "NUMBER_OF_CHANNELS = 1"

definition COMPRESSION_TYPE :: string where
  "COMPRESSION_TYPE = ''NONE''"

definition COMPRESSION_NAME :: string where
  "COMPRESSION_NAME = ''Uncompressed''"

text \<open>The dictionary \<open>FREQUENCY_MAP\<close> (lines 19-36).\<close>

definition FREQUENCY_MAP :: "string \<rightharpoonup> int \<times> int" where
  "FREQUENCY_MAP = map_of
    [(''1'', (697, 1209)), (''2'', (697, 1336)), (''3'', (697, 1477)), (''A'', (697, 1633)),
     (''4'', (770, 1209)), (''5'', (770, 1336)), (''6'', (770, 1477)), (''B'', (770, 1633)),
     (''7'', (852, 1209)), (''8'', (852, 1336)), (''9'', (852, 1477)), (''C'', (852, 1633)),
     (''*'', (941, 1209)), (''0'', (941, 1336)), (''#'', (941, 1477)), (''D'', (941, 1633)),
     (''S'', (0, 0))]"

definition VALID_SEQUENCE_TYPES :: "pytype list" where
  "VALID_SEQUENCE_TYPES = [TList, TTuple, TSet]"

text \<open>
  An instance of class \<open>DTMF\<close>: the attributes \<open>_dtmf_sequence\<close> and \<open>_raw_data\<close>,
  \<open>None\<close> for Python's \<open>None\<close>. The setter stores a value only when its type is
  \<open>list\<close>, so the stored sequence is kept as the list of its items.
\<close>

record dtmf =
  u_dtmf_sequence :: "pyval list option"
  u_raw_data :: "int list option"

definition DTMF_new :: dtmf where
  "DTMF_new = \<lparr>u_dtmf_sequence = None, u_raw_data = None\<rparr>"

section \<open>Subscripting and dictionary lookup\<close>

text \<open>
  \<open>item[i]\<close> for a non-negative literal index: lists, tuples and strings raise
  IndexError out of range, a set (and None, a number) is not subscriptable, a dict
  raises KeyError for a missing key.
\<close>

fun py_getitem :: "pyval \<Rightarrow> nat \<Rightarrow> py_error + pyval" where
  "py_getitem (PyList xs) i = (if i < length xs then Inr (xs ! i) else Inl IndexError)"
| "py_getitem (PyTuple xs) i = (if i < length xs then Inr (xs ! i) else Inl IndexError)"
| "py_getitem (PyStr s) i = (if i < length s then Inr (PyStr [s ! i]) else Inl IndexError)"
| "py_getitem (PyDict kvs) i =
     (case map_of kvs (PyInt (int i)) of None \<Rightarrow> Inl KeyError | Some v \<Rightarrow> Inr v)"
| "py_getitem _ i = Inl TypeError"

text \<open>
  \<open>FREQUENCY_MAP[key]\<close>: a missing key raises KeyError; an unhashable key (list, set,
  dict) raises TypeError. All keys of the table are strings.
\<close>

fun frequency_lookup :: "pyval \<Rightarrow> py_error + int \<times> int" where
  "frequency_lookup (PyStr s) =
     (case FREQUENCY_MAP s of None \<Rightarrow> Inl KeyError | Some p \<Rightarrow> Inr p)"
| "frequency_lookup (PyList _) = Inl TypeError"
| "frequency_lookup (PySet _) = Inl TypeError"
| "frequency_lookup (PyDict _) = Inl TypeError"
| "frequency_lookup _ = Inl KeyError"

section \<open>Validation and the setter (lines 75-109)\<close>

text \<open>
  The \<open>for item in input_list\<close> loop of \<open>dtmf_sequence_is_valid\<close>. The Python \<open>or\<close>
  short-circuits: \<open>item[1]\<close> is only read when \<open>item[0]\<close> is a string.
\<close>

fun check_items :: "pyval list \<Rightarrow> py_error + bool" where
  "check_items [] = Inr True"
| "check_items (item # rest) =
     (case py_getitem item 0 of
        Inl e \<Rightarrow> Inl e
      | Inr a \<Rightarrow>
          if type_of a \<noteq> TStr then Inr False
          else (case py_getitem item 1 of
                  Inl e \<Rightarrow> Inl e
                | Inr b \<Rightarrow> if type_of b \<noteq> TInt then Inr False else check_items rest))"

fun dtmf_sequence_is_valid :: "pyval \<Rightarrow> py_error + bool" where
  "dtmf_sequence_is_valid (PyList input_list) =
     (if count_list (map (\<lambda>item. type_of item \<in> set VALID_SEQUENCE_TYPES) input_list) False \<noteq> 0
      then Inr False
      else check_items input_list)"
| "dtmf_sequence_is_valid _ = Inr False"

text \<open>
  The setter. \<open>json.loads\<close> belongs to the standard library and is a parameter
  \<open>loads\<close>. The result is the exception that escapes, if any, and the instance
  afterwards.
\<close>

definition dtmf_sequence_setter ::
  "(string \<Rightarrow> py_error + pyval) \<Rightarrow> pyval \<Rightarrow> dtmf \<Rightarrow> py_error option \<times> dtmf" where
  "dtmf_sequence_setter loads input_sequence self =
     (case (case input_sequence of PyStr s \<Rightarrow> loads s | _ \<Rightarrow> Inr input_sequence) of
        Inl e \<Rightarrow> (Some e, self)
      | Inr v \<Rightarrow>
          (case v of
             PyList items \<Rightarrow>
               (case dtmf_sequence_is_valid v of
                  Inl e \<Rightarrow> (Some e, self)
                | Inr ok \<Rightarrow>
                    (None, if ok then self\<lparr>u_dtmf_sequence := Some items\<rparr> else self))
           | _ \<Rightarrow> (None, self)))"

section \<open>Tone synthesis (lines 145-165)\<close>

text \<open>Python's \<open>int(x)\<close> on a float: truncation toward zero.\<close>

definition py_int :: "real \<Rightarrow> int" where
  "py_int x = (if 0 \<le> x then \<lfloor>x\<rfloor> else \<lceil>x\<rceil>)"

text \<open>\<open>range(n)\<close>: empty when \<open>n \<le> 0\<close>.\<close>

definition py_range :: "int \<Rightarrow> int list" where
  "py_range n = [0..n - 1]"

text \<open>
  Rounding to the nearest double, ties to even. \<open>rne\<close> rounds to an integer;
  \<open>ulp_exponent x\<close> is the exponent of the last binary place of the doubles around
  \<open>x\<close>: 52 below the binary exponent of \<open>x\<close>, which is never taken below -1022
  (subnormal numbers); \<open>binary64 x\<close> is the multiple of that unit nearest to \<open>x\<close>.
\<close>

definition rne :: "real \<Rightarrow> int" where
  "rne y = (let f = \<lfloor>y\<rfloor>; r = y - of_int f
            in if r < 1 / 2 then f else if 1 / 2 < r then f + 1 else if even f then f else f + 1)"

definition ulp_exponent :: "real \<Rightarrow> int" where
  "ulp_exponent x = max \<lfloor>log 2 \<bar>x\<bar>\<rfloor> (- 1022) - 52"

definition binary64 :: "real \<Rightarrow> real" where
  "binary64 x = (if x = 0 then 0
                 else of_int (rne (x / 2 powi ulp_exponent x)) * 2 powi ulp_exponent x)"

text \<open>
  \<open>a / b\<close> for two ints: the exact quotient rounded once to a double; OverflowError
  when the rounded quotient is beyond the largest double, ZeroDivisionError for
  \<open>b = 0\<close>.
\<close>

definition int_truediv :: "int \<Rightarrow> int \<Rightarrow> py_error + real" where
  "int_truediv a b =
     (if b = 0 then Inl ZeroDivisionError
      else (let q = binary64 (real_of_int a / real_of_int b)
            in if 2 ^ 1024 \<le> \<bar>q\<bar> then Inl OverflowError else Inr q))"

text \<open>\<open>int(SAMPLE_RATE * _duration_in_ms / 1000)\<close>: the product is an exact int.\<close>

definition number_of_samples :: "int \<Rightarrow> py_error + int" where
  "number_of_samples duration_in_ms =
     (case int_truediv (SAMPLE_RATE * duration_in_ms) 1000 of
        Inl e \<Rightarrow> Inl e
      | Inr q \<Rightarrow> Inr (py_int q))"

text \<open>
  One sample (line 162) before and after \<open>int\<close>. The value is taken over the exact
  reals; the doubles the interpreter computes differ from it by a rounding error that
  depends on the platform's \<open>math.sin\<close>. The statements below use of it only what
  holds for the doubles as well: \<open>sin 0 = 0\<close> and \<open>|sin x| \<le> 1\<close>.
\<close>

definition scale :: real where
  "scale = 32767"

definition tone_sample :: "int \<Rightarrow> int \<Rightarrow> int \<Rightarrow> int" where
  "tone_sample f1 f2 i =
     (let p = real_of_int i * 1.0 / real_of_int SAMPLE_RATE
      in py_int ((sin (p * real_of_int f1 * pi * 2) + sin (p * real_of_int f2 * pi * 2)) / 2 * scale))"

text \<open>
  The loop \<open>for i in range(number_of_samples): result.append(...)\<close>. Lists are
  unbounded here: the memory a long buffer takes is not part of the model.
\<close>

fun tone_loop :: "int \<Rightarrow> int \<Rightarrow> int list \<Rightarrow> int list \<Rightarrow> int list" where
  "tone_loop f1 f2 [] result = result"
| "tone_loop f1 f2 (i # rest) result = tone_loop f1 f2 rest (result @ [tone_sample f1 f2 i])"

definition generate_tone :: "int \<Rightarrow> int \<Rightarrow> int \<Rightarrow> py_error + int list" where
  "generate_tone f1 f2 duration_in_ms =
     (if \<not> (f1 \<in> set ROW_FREQ \<or> f1 = 0) then Inl AssertionError
      else if \<not> (f2 \<in> set COL_FREQ \<or> f2 = 0) then Inl AssertionError
      else (case number_of_samples duration_in_ms of
              Inl e \<Rightarrow> Inl e
            | Inr n \<Rightarrow> Inr (tone_loop f1 f2 (py_range n) [])))"

section \<open>Waveform assembly (lines 111-127)\<close>

text \<open>
  The loop over the stored sequence. A stored sequence has passed validation, so the
  duration is an \<open>int\<close>; for any other value the model raises TypeError.
\<close>

fun raw_loop :: "pyval list \<Rightarrow> int list \<Rightarrow> py_error + int list" where
  "raw_loop [] data = Inr data"
| "raw_loop (tone_tuple # rest) data =
     (case py_getitem tone_tuple 0 of
        Inl e \<Rightarrow> Inl e
      | Inr key \<Rightarrow>
          (case py_getitem tone_tuple 1 of
             Inl e \<Rightarrow> Inl e
           | Inr tone_duration \<Rightarrow>
               (case frequency_lookup key of
                  Inl e \<Rightarrow> Inl e
                | Inr (f1, f2) \<Rightarrow>
                    (case tone_duration of
                       PyInt d \<Rightarrow>
                         (case generate_tone f1 f2 d of
                            Inl e \<Rightarrow> Inl e
                          | Inr tone \<Rightarrow> raw_loop rest (data @ tone))
                     | _ \<Rightarrow> Inl TypeError))))"

definition generate_raw_data :: "dtmf \<Rightarrow> py_error option \<times> dtmf" where
  "generate_raw_data self =
     (case u_dtmf_sequence self of
        None \<Rightarrow> (Some AttributeError, self)
      | Some items \<Rightarrow>
          (case raw_loop items [] of
             Inl e \<Rightarrow> (Some e, self)
           | Inr data \<Rightarrow> (None, self\<lparr>u_raw_data := Some data\<rparr>)))"

section \<open>The container encoder (lines 129-143)\<close>

text \<open>
  \<open>struct.pack('i', i)\<close>: the native C int, four bytes in two's complement (written
  here least significant byte first); a value outside the 32-bit range raises
  \<open>struct.error\<close>. Bytes are numbers below 256.
\<close>

definition struct_pack_i :: "int \<Rightarrow> py_error + nat list" where
  "struct_pack_i i =
     (if - 2147483648 \<le> i \<and> i \<le> 2147483647
      then (let u = i mod 4294967296
            in Inr [nat (u mod 256), nat (u div 256 mod 256),
                    nat (u div 65536 mod 256), nat (u div 16777216 mod 256)])
      else Inl StructError)"

text \<open>
  What the module asks of the \<open>wave\<close> writer: the declared header parameters and the
  bytes handed to \<open>writeframes\<close>, in order. A file is a wave file being written or
  a text file.
\<close>

record wave_write =
  nchannels :: nat
  sampwidth :: nat
  framerate :: int
  nframes :: nat
  comptype :: string
  compname :: string
  frames :: "nat list"
  closed :: bool

datatype fs_file = WaveFile wave_write | TextFile string

type_synonym filesystem = "string \<rightharpoonup> fs_file"

definition wave_open :: wave_write where
  "wave_open = \<lparr>nchannels = 0, sampwidth = 0, framerate = 0, nframes = 0,
                 comptype = [], compname = [], frames = [], closed = False\<rparr>"

text \<open>The loop \<open>for i in self._raw_data: f.writeframes(struct.pack('i', i))\<close>.\<close>

fun write_loop :: "int list \<Rightarrow> wave_write \<Rightarrow> py_error option \<times> wave_write" where
  "write_loop [] f = (None, f)"
| "write_loop (i # rest) f =
     (case struct_pack_i i of
        Inl e \<Rightarrow> (Some e, f)
      | Inr bs \<Rightarrow> write_loop rest (f\<lparr>frames := frames f @ bs\<rparr>))"

definition save_wave_file ::
  "string \<Rightarrow> dtmf \<times> filesystem \<Rightarrow> py_error option \<times> dtmf \<times> filesystem" where
  "save_wave_file file_path w =
     (let (self, fs) = w;
          (err, self1) =
             (if u_raw_data self = None \<or> length (the (u_raw_data self)) < 1
              then generate_raw_data self else (None, self))
      in case err of
           Some e \<Rightarrow> (Some e, self1, fs)
         | None \<Rightarrow>
             (case u_raw_data self1 of
                None \<Rightarrow> (Some TypeError, self1, fs)
              | Some raw \<Rightarrow>
                  (let f = wave_open\<lparr>nchannels := NUMBER_OF_CHANNELS,
                                      sampwidth := SAMPLE_WIDTH,
                                      framerate := SAMPLE_RATE,
                                      nframes := length raw,
                                      comptype := COMPRESSION_TYPE,
                                      compname := COMPRESSION_NAME\<rparr>;
                       (werr, f1) = write_loop raw f
                   in case werr of
                        Some e \<Rightarrow> (Some e, self1, fs(file_path \<mapsto> WaveFile f1))
                      | None \<Rightarrow> (None, self1, fs(file_path \<mapsto> WaveFile (f1\<lparr>closed := True\<rparr>))))))"

section \<open>The convenience method (lines 167-188)\<close>

text \<open>\<open>str(d)\<close> for an integer: its decimal digits, with a minus sign when negative.\<close>

fun digit_char :: "nat \<Rightarrow> char" where
  "digit_char n = (''0123456789'' ! (n mod 10))"

function str_nat :: "nat \<Rightarrow> string" where
  "str_nat n = (if n < 10 then [digit_char n] else str_nat (n div 10) @ [digit_char (n mod 10)])"
  by pat_completeness auto
termination
  by (relation "measure id") auto

definition py_str :: "int \<Rightarrow> string" where
  "py_str d = (if d < 0 then CHR ''-'' # str_nat (nat (- d)) else str_nat (nat d))"

definition csv_dump :: "int list \<Rightarrow> string" where
  "csv_dump raw = concat (map (\<lambda>d. py_str d @ '','') raw)"

definition create_dtmf_wave_file ::
  "(string \<Rightarrow> py_error + pyval) \<Rightarrow> pyval \<Rightarrow> string \<Rightarrow> bool \<Rightarrow> dtmf \<times> filesystem
     \<Rightarrow> py_error option \<times> dtmf \<times> filesystem" where
  "create_dtmf_wave_file loads input_sequence file_path dump_to_csv w =
     (let (self, fs) = w;
          (e1, self1) = dtmf_sequence_setter loads input_sequence self
      in case e1 of
           Some e \<Rightarrow> (Some e, self1, fs)
         | None \<Rightarrow>
             (let (e2, self2) = generate_raw_data self1
              in case e2 of
                   Some e \<Rightarrow> (Some e, self2, fs)
                 | None \<Rightarrow>
                     (let fs1 = fs(''dtmf_dump.csv'' := None);
                          fs2 = (if dump_to_csv
                                 then fs1(''dtmf_dump.csv'' \<mapsto>
                                        TextFile (csv_dump (case u_raw_data self2 of
                                                              None \<Rightarrow> [] | Some raw \<Rightarrow> raw)))
                                 else fs1)
                      in save_wave_file file_path (self2, fs2))))"

section \<open>Vocabulary of the statements\<close>

text \<open>The two assertions at the head of \<open>generate_tone\<close>, as one predicate.\<close>

definition tone_precondition :: "int \<Rightarrow> int \<Rightarrow> bool" where
  "tone_precondition f1 f2 =
     ((f1 \<in> set ROW_FREQ \<or> f1 = 0) \<and> (f2 \<in> set COL_FREQ \<or> f2 = 0))"

text \<open>
  The (symbol, duration) entry an item of a sequence stands for: a list or a tuple whose
  first component is a string and whose second is an integer.
\<close>

fun entry_of :: "pyval \<Rightarrow> (string \<times> int) option" where
  "entry_of (PyList (PyStr s # PyInt d # _)) = Some (s, d)"
| "entry_of (PyTuple (PyStr s # PyInt d # _)) = Some (s, d)"
| "entry_of _ = None"

text \<open>\<open>tone_tuple[0]\<close> and \<open>tone_tuple[1]\<close> of an item, read as symbol and duration.\<close>

definition entry_symbol :: "pyval \<Rightarrow> string" where
  "entry_symbol item = (case py_getitem item 0 of Inr (PyStr s) \<Rightarrow> s | _ \<Rightarrow> [])"

definition entry_duration :: "pyval \<Rightarrow> int" where
  "entry_duration item = (case py_getitem item 1 of Inr (PyInt d) \<Rightarrow> d | _ \<Rightarrow> 0)"

text \<open>The sub-buffer of one entry: table lookup, then synthesis.\<close>

definition symbol_tone :: "string \<times> int \<Rightarrow> py_error + int list" where
  "symbol_tone e = (case FREQUENCY_MAP (fst e) of
                      None \<Rightarrow> Inl KeyError
                    | Some (f1, f2) \<Rightarrow> generate_tone f1 f2 (snd e))"

text \<open>
  A record with at least two components, and the candidates the validator turns down by
  returning \<open>False\<close>: a value that is not a list; a list with an element that is
  neither list, tuple nor set; a list of records in which some record does not start
  with a string and an integer.
\<close>

fun is_record :: "pyval \<Rightarrow> bool" where
  "is_record (PyList xs) = (2 \<le> length xs)"
| "is_record (PyTuple xs) = (2 \<le> length xs)"
| "is_record _ = False"

fun malformed :: "pyval \<Rightarrow> bool" where
  "malformed (PyList items) =
     (list_ex (\<lambda>item. type_of item \<notin> set VALID_SEQUENCE_TYPES) items
      \<or> (list_all is_record items \<and> list_ex (\<lambda>item. entry_of item = None) items))"
| "malformed _ = True"

text \<open>
  The waveform \<open>generate_raw_data\<close> stores for a sequence, on an instance that holds
  that sequence; \<open>None\<close> when it raises.
\<close>

definition raw_of :: "pyval list \<Rightarrow> int list option" where
  "raw_of items =
     (case generate_raw_data \<lparr>u_dtmf_sequence = Some items, u_raw_data = None\<rparr> of
        (None, self) \<Rightarrow> u_raw_data self
      | (Some e, self) \<Rightarrow> None)"

section \<open>Rounding to a double\<close>

lemma rne_upper: "of_int (rne y) \<le> y + 1 / 2"
  unfolding rne_def Let_def by (auto; linarith)

lemma rne_lower: "y - 1 / 2 \<le> of_int (rne y)"
  unfolding rne_def Let_def by (auto; linarith)

lemma rne_ge_int: "of_int m \<le> y \<Longrightarrow> m \<le> rne y"
  using rne_lower[of y] by linarith

lemma rne_le_int: "y \<le> of_int m \<Longrightarrow> rne y \<le> m"
  using rne_upper[of y] by linarith

lemma two_powi_pos: "0 < (2::real) powi e"
  by (simp add: power_int_def)

lemma binary64_error: "\<bar>binary64 x - x\<bar> \<le> 2 powi ulp_exponent x / 2"
proof (cases "x = 0")
  case True
  then show ?thesis using two_powi_pos[of "ulp_exponent x"] by (simp add: binary64_def)
next
  case False
  define s where "s = (2::real) powi ulp_exponent x"
  have s: "0 < s" by (simp add: s_def two_powi_pos)
  have half: "\<bar>of_int (rne (x / s)) - x / s\<bar> \<le> 1 / 2"
    using rne_upper[of "x / s"] rne_lower[of "x / s"] by linarith
  have "of_int (rne (x / s)) * s - x = (of_int (rne (x / s)) - x / s) * s"
    using s by (simp add: field_simps)
  then have "\<bar>of_int (rne (x / s)) * s - x\<bar> = \<bar>of_int (rne (x / s)) - x / s\<bar> * s"
    using s by (simp add: abs_mult)
  also have "\<dots> \<le> 1 / 2 * s"
    using half s by (intro mult_right_mono) simp_all
  finally have "\<bar>of_int (rne (x / s)) * s - x\<bar> \<le> s / 2" by simp
  then show ?thesis using False by (simp add: binary64_def s_def)
qed

lemma binary64_nonneg: "0 \<le> x \<Longrightarrow> 0 \<le> binary64 x"
proof -
  assume x: "0 \<le> x"
  have "0 \<le> rne (x / 2 powi ulp_exponent x)"
    using x two_powi_pos[of "ulp_exponent x"] by (intro rne_ge_int) simp
  then show ?thesis using two_powi_pos[of "ulp_exponent x"] by (simp add: binary64_def)
qed

lemma binary64_nonpos: "x \<le> 0 \<Longrightarrow> binary64 x \<le> 0"
proof -
  assume x: "x \<le> 0"
  have "rne (x / 2 powi ulp_exponent x) \<le> 0"
    using x two_powi_pos[of "ulp_exponent x"] by (intro rne_le_int) (simp add: divide_nonpos_pos)
  then show ?thesis using two_powi_pos[of "ulp_exponent x"]
    by (simp add: binary64_def mult_nonpos_nonneg)
qed

lemma floor_log2_less:
  assumes "x \<noteq> 0" "\<bar>x\<bar> < 2 ^ n"
  shows "\<lfloor>log 2 \<bar>x\<bar>\<rfloor> < int n"
proof -
  from assms have "log 2 \<bar>x\<bar> < log 2 (2 ^ n)" by (subst log_less_cancel_iff) simp_all
  then have "log 2 \<bar>x\<bar> < real n" by simp
  then show ?thesis by (simp add: floor_less_iff)
qed

lemma floor_log2_ge:
  assumes "2 ^ n \<le> \<bar>x\<bar>"
  shows "int n \<le> \<lfloor>log 2 \<bar>x\<bar>\<rfloor>"
proof -
  have pos: "0 < \<bar>x\<bar>" using assms by (smt (verit) zero_less_power)
  from assms pos have "log 2 (2 ^ n) \<le> log 2 \<bar>x\<bar>" by (subst log_le_cancel_iff) simp_all
  then have "real n \<le> log 2 \<bar>x\<bar>" by simp
  then show ?thesis by (simp add: le_floor_iff)
qed

lemma two_powi_floor_log_le:
  assumes "x \<noteq> 0"
  shows "2 powi \<lfloor>log 2 \<bar>x\<bar>\<rfloor> \<le> \<bar>x\<bar>"
proof -
  have "of_int \<lfloor>log 2 \<bar>x\<bar>\<rfloor> \<le> log 2 \<bar>x\<bar>" by simp
  then have "2 powr of_int \<lfloor>log 2 \<bar>x\<bar>\<rfloor> \<le> 2 powr log 2 \<bar>x\<bar>" by (intro powr_mono) simp_all
  with assms show ?thesis by (simp add: powr_real_of_int')
qed


lemma ulp_exponent_small:
  assumes "x \<noteq> 0" "\<bar>x\<bar> < 2 ^ 50"
  shows "ulp_exponent x \<le> - 3"
  using floor_log2_less[OF assms] by (simp add: ulp_exponent_def)

lemma binary64_tenths_floor:
  assumes "0 \<le> m" "m < 10 * 2 ^ 50"
  shows "\<lfloor>binary64 (of_int m / 10)\<rfloor> = m div 10"
proof (cases "m = 0")
  case True
  then show ?thesis by (simp add: binary64_def)
next
  case False
  define x where "x = real_of_int m / 10"
  from False assms have x0: "x \<noteq> 0" and xpos: "0 < x" by (simp_all add: x_def)
  from assms have "real_of_int m < real_of_int (10 * 2 ^ 50)" by (simp only: of_int_less_iff)
  then have "real_of_int m < 10 * 2 ^ 50" by simp
  with xpos have "\<bar>x\<bar> < 2 ^ 50" by (simp add: x_def)
  from ulp_exponent_small[OF x0 this] have e: "ulp_exponent x \<le> - 3" .
  define k where "k = nat (- ulp_exponent x)"
  from e have k: "3 \<le> k" and ek: "ulp_exponent x = - int k" by (simp_all add: k_def)
  have s: "2 powi ulp_exponent x = 1 / (2::real) ^ k"
    by (simp add: ek power_int_minus field_simps)
  have K8: "(8::real) \<le> 2 ^ k"
    using power_increasing[of 3 k "2::real"] k by simp
  define N where "N = m div 10"
  define r where "r = m mod 10"
  have m: "m = 10 * N + r" and r: "0 \<le> r" "r \<le> 9" by (simp_all add: N_def r_def)
  define y where "y = x * 2 ^ k"
  have xs: "x / 2 powi ulp_exponent x = y" by (simp add: s y_def)
  have xN: "real_of_int N \<le> x" "x \<le> real_of_int N + 9 / 10"
    using r by (simp_all add: x_def m)
  have lo: "of_int (N * 2 ^ k) \<le> y"
    using xN(1) by (simp add: y_def mult_right_mono)
  have "y \<le> (real_of_int N + 9 / 10) * 2 ^ k"
    using xN(2) unfolding y_def by (intro mult_right_mono) simp_all
  then have "y + 1 / 2 < (real_of_int N + 1) * 2 ^ k"
    using K8 by (simp add: algebra_simps)
  with rne_upper[of y] have hi: "real_of_int (rne y) < (real_of_int N + 1) * 2 ^ k" by linarith
  from rne_ge_int[OF lo] have "real_of_int (N * 2 ^ k) \<le> real_of_int (rne y)"
    by (simp only: of_int_le_iff)
  then have lo': "real_of_int N * 2 ^ k \<le> real_of_int (rne y)" by simp
  have "binary64 x = of_int (rne (x / 2 powi ulp_exponent x)) * 2 powi ulp_exponent x"
    using x0 by (simp add: binary64_def)
  then have b: "binary64 x = real_of_int (rne y) / 2 ^ k"
    unfolding xs unfolding s by simp
  have "real_of_int N \<le> binary64 x" "binary64 x < real_of_int N + 1"
    using lo' hi by (simp_all add: b field_simps)
  then have "\<lfloor>binary64 x\<rfloor> = N" by (simp add: floor_eq_iff)
  then show ?thesis by (simp add: x_def N_def)
qed

lemma binary64_no_overflow:
  assumes "\<bar>x\<bar> \<le> 2 ^ 1023"
  shows "\<bar>binary64 x\<bar> < 2 ^ 1024"
proof (cases "x = 0")
  case True
  then show ?thesis by (simp add: binary64_def)
next
  case False
  define B where "B = (2::real) ^ 1023"
  define U where "U = (2::real) powi ulp_exponent x"
  have B2: "(2::real) ^ 1024 = 2 * B" unfolding B_def by (simp only: power_Suc[symmetric]) simp
  have Bpos: "0 < B" unfolding B_def by (rule zero_less_power) simp
  from assms have xB: "\<bar>x\<bar> \<le> B" by (simp only: B_def)
  with Bpos have "\<bar>x\<bar> < 2 * B" by linarith
  then have "\<bar>x\<bar> < 2 ^ 1024" by (simp only: B2)
  from floor_log2_less[OF False this] have "ulp_exponent x \<le> 971"
    by (simp add: ulp_exponent_def)
  then have "U \<le> 2 powi 971" unfolding U_def
    by (intro power_int_increasing) simp_all
  moreover have "(2::real) powi 971 = 2 ^ 971" by (rule power_int_numeral)
  moreover have "(2::real) ^ 971 \<le> 2 ^ 1023" by (intro power_increasing) simp_all
  ultimately have "U \<le> B" unfolding B_def by (simp only:)
  moreover from binary64_error[of x] have "\<bar>binary64 x - x\<bar> \<le> U / 2" by (simp only: U_def)
  ultimately have "\<bar>binary64 x\<bar> < 2 * B" using xB Bpos by linarith
  then show ?thesis by (simp only: B2)
qed

lemma binary64_overflow:
  assumes "2 ^ 1024 \<le> \<bar>x\<bar>"
  shows "2 ^ 1024 \<le> \<bar>binary64 x\<bar>"
proof -
  define B where "B = (2::real) ^ 1024"
  have Bpos: "0 < B" unfolding B_def by (rule zero_less_power) simp
  from assms have xB: "B \<le> \<bar>x\<bar>" by (simp only: B_def)
  with Bpos have x0: "x \<noteq> 0" by auto
  define e0 where "e0 = \<lfloor>log 2 \<bar>x\<bar>\<rfloor>"
  from floor_log2_ge[OF assms] have e0: "1024 \<le> e0" by (simp add: e0_def)
  then have ue: "ulp_exponent x = e0 - 52" by (simp add: ulp_exponent_def e0_def)
  define s where "s = (2::real) powi (e0 - 52)"
  define M where "M = (2::int) ^ 52"
  have s: "0 < s" by (simp add: s_def two_powi_pos)
  have "(2::real) powi e0 = 2 powi 52 * 2 powi (e0 - 52)"
    using power_int_add[of "2::real" 52 "e0 - 52"] by simp
  moreover have "(2::real) powi 52 = of_int M" unfolding M_def by simp
  ultimately have split: "(2::real) powi e0 = of_int M * s" by (simp only: s_def)
  from two_powi_floor_log_le[OF x0] have "2 powi e0 \<le> \<bar>x\<bar>" by (simp only: e0_def)
  then have le: "of_int M * s \<le> \<bar>x\<bar>" by (simp only: split)
  have "(2::real) powi 1024 \<le> 2 powi e0" using e0 by (intro power_int_increasing) simp_all
  moreover have "(2::real) powi 1024 = 2 ^ 1024" by (rule power_int_numeral)
  ultimately have "B \<le> 2 powi e0" by (simp only: B_def)
  then have big: "B \<le> of_int M * s" by (simp only: split)
  have b: "binary64 x = of_int (rne (x / s)) * s" using x0 by (simp add: binary64_def ue s_def)
  have "B \<le> \<bar>binary64 x\<bar>"
  proof (cases "0 < x")
    case True
    with le s have "of_int M \<le> x / s" by (simp add: field_simps)
    from rne_ge_int[OF this] have "real_of_int M \<le> of_int (rne (x / s))" by simp
    then have "of_int M * s \<le> of_int (rne (x / s)) * s" using s by (intro mult_right_mono) simp_all
    with big b show ?thesis by linarith
  next
    case False
    with x0 le s have "x / s \<le> of_int (- M)" by (simp add: field_simps)
    from rne_le_int[OF this] have "of_int (rne (x / s)) \<le> - real_of_int M" by simp
    then have "of_int (rne (x / s)) * s \<le> - real_of_int M * s" using s by (intro mult_right_mono) simp_all
    with big b show ?thesis by linarith
  qed
  then show ?thesis by (simp only: B_def)
qed

section \<open>The number of samples\<close>

lemma int_truediv_1000:
  "int_truediv a 1000 =
     (if 2 ^ 1024 \<le> \<bar>binary64 (real_of_int a / 1000)\<bar> then Inl OverflowError
      else Inr (binary64 (real_of_int a / 1000)))"
  by (simp add: int_truediv_def Let_def)

lemma quotient_tenths: "real_of_int (SAMPLE_RATE * d) / 1000 = real_of_int (441 * d) / 10"
  by (simp add: SAMPLE_RATE_def)

lemma quotient_in_range:
  assumes "\<bar>441 * d\<bar> \<le> 10 * 2 ^ 1023"
  shows "\<bar>real_of_int (441 * d) / 10\<bar> \<le> 2 ^ 1023"
proof -
  from assms have "real_of_int \<bar>441 * d\<bar> \<le> real_of_int (10 * 2 ^ 1023)"
    by (simp only: of_int_le_iff)
  then have "\<bar>real_of_int (441 * d)\<bar> \<le> 10 * 2 ^ 1023" by simp
  then show ?thesis by simp
qed

lemma number_of_samples_returns:
  assumes "\<bar>441 * d\<bar> \<le> 10 * 2 ^ 1023"
  shows "number_of_samples d = Inr (py_int (binary64 (real_of_int (441 * d) / 10)))"
proof -
  from binary64_no_overflow[OF quotient_in_range[OF assms]]
  have "\<not> 2 ^ 1024 \<le> \<bar>binary64 (real_of_int (441 * d) / 10)\<bar>" by (simp only: not_le)
  then show ?thesis
    by (simp only: number_of_samples_def int_truediv_1000 quotient_tenths if_False sum.case)
qed

lemma number_of_samples_raises:
  assumes "number_of_samples d = Inl e"
  shows "e = OverflowError \<and> 10 * 2 ^ 1023 < \<bar>441 * d\<bar>"
proof -
  have "10 * 2 ^ 1023 < \<bar>441 * d\<bar>"
  proof (rule ccontr)
    assume "\<not> 10 * 2 ^ 1023 < \<bar>441 * d\<bar>"
    then have "\<bar>441 * d\<bar> \<le> 10 * 2 ^ 1023" by (simp only: not_less)
    from number_of_samples_returns[OF this] assms show False by simp
  qed
  moreover from assms have "e = OverflowError"
    by (auto simp: number_of_samples_def int_truediv_1000 split: if_splits)
  ultimately show ?thesis by simp
qed

lemma number_of_samples_overflow:
  assumes "10 * 2 ^ 1024 \<le> \<bar>441 * d\<bar>"
  shows "number_of_samples d = Inl OverflowError"
proof -
  from assms have "real_of_int (10 * 2 ^ 1024) \<le> real_of_int \<bar>441 * d\<bar>"
    by (simp only: of_int_le_iff)
  then have "10 * 2 ^ 1024 \<le> \<bar>real_of_int (441 * d)\<bar>" by simp
  then have "2 ^ 1024 \<le> \<bar>real_of_int (441 * d) / 10\<bar>" by simp
  from binary64_overflow[OF this] show ?thesis
    by (simp only: number_of_samples_def int_truediv_1000 quotient_tenths if_True sum.case)
qed

lemma small_duration_in_range:
  fixes d :: int
  assumes "\<bar>d\<bar> \<le> 25000000000000"
  shows "\<bar>441 * d\<bar> \<le> 10 * 2 ^ 1023"
proof -
  have "(2::int) ^ 51 \<le> 2 ^ 1023" by (intro power_increasing) simp_all
  moreover from assms have "\<bar>441 * d\<bar> \<le> 10 * 2 ^ 51" by (simp add: abs_mult)
  ultimately show ?thesis by linarith
qed

lemma number_of_samples_exact:
  assumes "0 \<le> d" "d \<le> 25000000000000"
  shows "number_of_samples d = Inr (44100 * d div 1000)"
proof -
  from assms have m: "0 \<le> 441 * d" "441 * d < 10 * 2 ^ 50" by simp_all
  from assms have "\<bar>d\<bar> \<le> 25000000000000" by simp
  from number_of_samples_returns[OF small_duration_in_range[OF this]]
  have "number_of_samples d = Inr (py_int (binary64 (real_of_int (441 * d) / 10)))" .
  moreover from m(1) have "0 \<le> binary64 (real_of_int (441 * d) / 10)"
    by (intro binary64_nonneg) simp
  ultimately have "number_of_samples d = Inr \<lfloor>binary64 (real_of_int (441 * d) / 10)\<rfloor>"
    by (simp add: py_int_def)
  also have "\<lfloor>binary64 (real_of_int (441 * d) / 10)\<rfloor> = 441 * d div 10"
    by (rule binary64_tenths_floor[OF m])
  also have "441 * d div 10 = 44100 * d div 1000" by simp
  finally show ?thesis .
qed

lemma number_of_samples_negative:
  assumes "d < 0" "\<bar>441 * d\<bar> \<le> 10 * 2 ^ 1023"
  shows "\<exists>n. number_of_samples d = Inr n \<and> n \<le> 0"
proof -
  from assms(1) have "real_of_int (441 * d) / 10 \<le> 0" by simp
  from binary64_nonpos[OF this] have "py_int (binary64 (real_of_int (441 * d) / 10)) \<le> 0"
    by (simp add: py_int_def ceiling_le_iff)
  with number_of_samples_returns[OF assms(2)] show ?thesis by simp
qed

lemma number_of_samples_count:
  assumes "\<bar>d\<bar> \<le> 25000000000000"
  shows "\<exists>n. number_of_samples d = Inr n \<and> nat n = nat (44100 * d div 1000)"
proof (cases "0 \<le> d")
  case True
  with assms number_of_samples_exact[of d] show ?thesis by simp
next
  case False
  then have d: "d < 0" by simp
  from number_of_samples_negative[OF d small_duration_in_range[OF assms]]
  obtain n where "number_of_samples d = Inr n" "n \<le> 0" by blast
  moreover from d have "44100 * d div 1000 < 0" by simp
  ultimately show ?thesis by simp
qed

section \<open>Synthesis: the loop and the sample values\<close>

lemma tone_loop_eq: "tone_loop f1 f2 idxs acc = acc @ map (tone_sample f1 f2) idxs"
  by (induction idxs arbitrary: acc) simp_all

lemma length_py_range: "length (py_range n) = nat n"
  by (simp add: py_range_def)

lemma py_range_nth: "i < nat n \<Longrightarrow> py_range n ! i = int i"
  by (simp add: py_range_def)

lemma generate_tone_ok:
  "tone_precondition f1 f2 \<Longrightarrow>
   generate_tone f1 f2 d =
     (case number_of_samples d of
        Inl e \<Rightarrow> Inl e
      | Inr n \<Rightarrow> Inr (map (tone_sample f1 f2) (py_range n)))"
  by (simp add: generate_tone_def tone_precondition_def tone_loop_eq split: sum.splits)

lemma frequency_map_precondition:
  "FREQUENCY_MAP s = Some (f1, f2) \<Longrightarrow> tone_precondition f1 f2"
  by (auto simp: FREQUENCY_MAP_def tone_precondition_def ROW_FREQ_def COL_FREQ_def split: if_splits)


lemma entry_of_SomeD:
  assumes "entry_of item = Some (s, d)"
  shows "py_getitem item 0 = Inr (PyStr s) \<and> py_getitem item (Suc 0) = Inr (PyInt d)
         \<and> type_of item \<in> set VALID_SEQUENCE_TYPES"
  using assms by (induction item rule: entry_of.induct) (simp_all add: VALID_SEQUENCE_TYPES_def)

lemma check_items_entries:
  "map entry_of items = map Some es \<Longrightarrow> check_items items = Inr True"
proof (induction items arbitrary: es)
  case Nil
  then show ?case by simp
next
  case (Cons item items)
  then obtain s d es' where es: "es = (s, d) # es'" and it: "entry_of item = Some (s, d)"
    and rest: "map entry_of items = map Some es'"
    by (cases es) auto
  from entry_of_SomeD[OF it] Cons.IH[OF rest] show ?case by simp
qed

lemma types_ok_entries:
  "map entry_of items = map Some es \<Longrightarrow>
   count_list (map (\<lambda>item. type_of item \<in> set VALID_SEQUENCE_TYPES) items) False = 0"
proof (induction items arbitrary: es)
  case Nil
  then show ?case by simp
next
  case (Cons item items)
  then obtain s d es' where it: "entry_of item = Some (s, d)"
    and rest: "map entry_of items = map Some es'"
    by (cases es) auto
  from entry_of_SomeD[OF it] Cons.IH[OF rest] show ?case by simp
qed

lemma valid_entries:
  "map entry_of items = map Some es \<Longrightarrow> dtmf_sequence_is_valid (PyList items) = Inr True"
  by (simp add: check_items_entries types_ok_entries)

lemma raw_loop_entries:
  "map entry_of items = map Some es \<Longrightarrow> map symbol_tone es = map Inr bufs \<Longrightarrow>
   raw_loop items acc = Inr (acc @ concat bufs)"
proof (induction items arbitrary: es bufs acc)
  case Nil
  then show ?case by simp
next
  case (Cons item items)
  from Cons.prems(1) obtain s d es' where es: "es = (s, d) # es'"
    and it: "entry_of item = Some (s, d)" and rest: "map entry_of items = map Some es'"
    by (cases es) auto
  from Cons.prems(2) es obtain b bufs' where bufs: "bufs = b # bufs'"
    and b: "symbol_tone (s, d) = Inr b" and brest: "map symbol_tone es' = map Inr bufs'"
    by (cases bufs) auto
  from b obtain f1 f2 where fm: "FREQUENCY_MAP s = Some (f1, f2)"
    and gt: "generate_tone f1 f2 d = Inr b"
    by (auto simp: symbol_tone_def split: option.splits)
  from entry_of_SomeD[OF it] fm gt Cons.IH[OF rest brest, of "acc @ b"] bufs
  show ?case by simp
qed

lemma raw_loop_unknown:
  "map entry_of items = map Some es \<Longrightarrow> list_ex (\<lambda>e. FREQUENCY_MAP (fst e) = None) es \<Longrightarrow>
   \<exists>e. raw_loop items acc = Inl e \<and> (e = KeyError \<or> e = OverflowError)
       \<and> (list_all (\<lambda>e. \<bar>441 * snd e\<bar> \<le> 10 * 2 ^ 1023) es \<longrightarrow> e = KeyError)"
proof (induction items arbitrary: es acc)
  case Nil
  then show ?case by simp
next
  case (Cons item items)
  from Cons.prems(1) obtain s d es' where es: "es = (s, d) # es'"
    and it: "entry_of item = Some (s, d)" and rest: "map entry_of items = map Some es'"
    by (cases es) auto
  show ?case
  proof (cases "FREQUENCY_MAP s")
    case None
    with entry_of_SomeD[OF it] show ?thesis by simp
  next
    case (Some p)
    obtain f1 f2 where p: "p = (f1, f2)" by (cases p)
    from Some Cons.prems(2) es have ex: "list_ex (\<lambda>e. FREQUENCY_MAP (fst e) = None) es'" by simp
    from frequency_map_precondition Some p have pre: "tone_precondition f1 f2" by simp
    show ?thesis
    proof (cases "number_of_samples d")
      case (Inl e)
      from number_of_samples_raises[OF this] have "e = OverflowError" "\<not> \<bar>441 * d\<bar> \<le> 10 * 2 ^ 1023"
        by simp_all
      moreover from generate_tone_ok[OF pre, of d] Inl entry_of_SomeD[OF it] Some p
      have "raw_loop (item # items) acc = Inl e" by simp
      ultimately show ?thesis using es by simp
    next
      case (Inr n)
      with generate_tone_ok[OF pre, of d] entry_of_SomeD[OF it] Some p
      have "raw_loop (item # items) acc
            = raw_loop items (acc @ map (tone_sample f1 f2) (py_range n))" by simp
      with Cons.IH[OF rest ex, of "acc @ map (tone_sample f1 f2) (py_range n)"] es
      show ?thesis by auto
    qed
  qed
qed

lemma symbol_tone_known:
  assumes "FREQUENCY_MAP (fst e) \<noteq> None" and "\<bar>snd e\<bar> \<le> 25000000000000"
  shows "\<exists>b. symbol_tone e = Inr b \<and> length b = nat (44100 * snd e div 1000)"
proof -
  from assms(1) obtain f1 f2 where fm: "FREQUENCY_MAP (fst e) = Some (f1, f2)" by auto
  from number_of_samples_count[OF assms(2)] obtain n where n: "number_of_samples (snd e) = Inr n"
    and c: "nat n = nat (44100 * snd e div 1000)" by blast
  from generate_tone_ok[OF frequency_map_precondition[OF fm], of "snd e"] n
  have "generate_tone f1 f2 (snd e) = Inr (map (tone_sample f1 f2) (py_range n))" by simp
  with fm c show ?thesis by (simp add: symbol_tone_def length_py_range)
qed

lemma tone_sample_silence: "tone_sample 0 0 i = 0"
  by (simp add: tone_sample_def py_int_def)

lemma py_int_bounds:
  assumes "\<bar>x\<bar> \<le> 32767"
  shows "- 32767 \<le> py_int x \<and> py_int x \<le> 32767"
proof (cases "0 \<le> x")
  case True
  with assms have "0 \<le> \<lfloor>x\<rfloor>" and "\<lfloor>x\<rfloor> \<le> 32767"
    by (simp_all add: floor_le_iff) 
  with True show ?thesis by (simp add: py_int_def)
next
  case False
  with assms have "\<lceil>x\<rceil> \<le> 0" and "- 32767 \<le> \<lceil>x\<rceil>"
    by (simp_all add: ceiling_le_iff le_ceiling_iff)
  with False show ?thesis by (simp add: py_int_def)
qed

lemma tone_sample_bounds: "- 32767 \<le> tone_sample f1 f2 i \<and> tone_sample f1 f2 i \<le> 32767"
proof -
  define a where "a = sin (real_of_int i * 1.0 / real_of_int SAMPLE_RATE * real_of_int f1 * pi * 2)"
  define b where "b = sin (real_of_int i * 1.0 / real_of_int SAMPLE_RATE * real_of_int f2 * pi * 2)"
  have "\<bar>a\<bar> \<le> 1" and "\<bar>b\<bar> \<le> 1" by (simp_all add: a_def b_def)
  then have "\<bar>(a + b) / 2 * 32767\<bar> \<le> 32767" by (simp add: abs_mult) 
  from py_int_bounds[OF this] show ?thesis
    by (simp add: tone_sample_def a_def b_def scale_def)
qed

lemma entry_of_fields:
  "entry_of item = Some (s, d) \<Longrightarrow> entry_symbol item = s \<and> entry_duration item = d"
  by (induction item rule: entry_of.induct) (simp_all add: entry_symbol_def entry_duration_def)

lemma entry_of_intro:
  assumes "type_of item \<in> set VALID_SEQUENCE_TYPES"
    and "py_getitem item 0 = Inr a" and "type_of a = TStr"
    and "py_getitem item (Suc 0) = Inr b" and "type_of b = TInt"
  shows "entry_of item \<noteq> None"
proof -
  have two: "\<exists>s d. xs = PyStr s # PyInt d # drop 2 xs"
    if "0 < length xs" "xs ! 0 = a" "Suc 0 < length xs" "xs ! Suc 0 = b" for xs
  proof -
    from that obtain x y zs where xs: "xs = x # y # zs"
      by (cases xs; cases "tl xs") auto
    with that assms(3,5) show ?thesis
      by (cases x; cases y) auto
  qed
  show ?thesis
  proof (cases item)
    case (PyList xs)
    with assms(2,4) have "0 < length xs" "xs ! 0 = a" "Suc 0 < length xs" "xs ! Suc 0 = b"
      by (auto split: if_splits)
    from two[OF this] obtain s d where "xs = PyStr s # PyInt d # drop 2 xs" by blast
    with PyList have "entry_of item = Some (s, d)" by (metis entry_of.simps(1))
    then show ?thesis by simp
  next
    case (PyTuple xs)
    with assms(2,4) have "0 < length xs" "xs ! 0 = a" "Suc 0 < length xs" "xs ! Suc 0 = b"
      by (auto split: if_splits)
    from two[OF this] obtain s d where "xs = PyStr s # PyInt d # drop 2 xs" by blast
    with PyTuple have "entry_of item = Some (s, d)" by (metis entry_of.simps(2))
    then show ?thesis by simp
  qed (use assms in \<open>simp_all add: VALID_SEQUENCE_TYPES_def\<close>)
qed

lemma check_items_True_entries:
  "check_items items = Inr True \<Longrightarrow> list_all (\<lambda>item. type_of item \<in> set VALID_SEQUENCE_TYPES) items \<Longrightarrow>
   list_all (\<lambda>item. entry_of item \<noteq> None) items"
proof (induction items)
  case Nil
  then show ?case by simp
next
  case (Cons item items)
  from Cons.prems(1) obtain a b where a: "py_getitem item 0 = Inr a" "type_of a = TStr"
    and b: "py_getitem item (Suc 0) = Inr b" "type_of b = TInt"
    and rest: "check_items items = Inr True"
    by (auto split: sum.splits if_splits)
  from Cons.prems(2) have ty: "type_of item \<in> set VALID_SEQUENCE_TYPES"
    and tys: "list_all (\<lambda>item. type_of item \<in> set VALID_SEQUENCE_TYPES) items" by simp_all
  from entry_of_intro[OF ty a b] Cons.IH[OF rest tys] show ?case by simp
qed

lemma count_False_zero:
  "count_list (map P xs) False = 0 \<longleftrightarrow> list_all P xs"
  by (induction xs) auto

lemma valid_True_entries:
  assumes "dtmf_sequence_is_valid (PyList items) = Inr True"
  shows "map entry_of items = map Some (map (\<lambda>item. (entry_symbol item, entry_duration item)) items)"
proof -
  from assms have c: "count_list (map (\<lambda>item. type_of item \<in> set VALID_SEQUENCE_TYPES) items) False = 0"
    and ch: "check_items items = Inr True"
    by (auto split: if_splits)
  from c have "list_all (\<lambda>item. type_of item \<in> set VALID_SEQUENCE_TYPES) items"
    by (simp only: count_False_zero)
  from check_items_True_entries[OF ch this]
  have "list_all (\<lambda>item. entry_of item \<noteq> None) items" .
  then show ?thesis
    by (induction items) (auto dest: entry_of_fields)
qed

text \<open>
  Claim C9. When \<open>generate_raw_data\<close> is called while no sequence has been stored
  (\<open>_dtmf_sequence\<close> is still \<open>None\<close>), it raises AttributeError and leaves the
  instance as it was: no waveform is stored.
\<close>
theorem generate_raw_data_no_sequence:
  "u_dtmf_sequence self = None \<Longrightarrow> generate_raw_data self = (Some AttributeError, self)"
  by (simp add: generate_raw_data_def)

theorem generate_raw_data_no_sequence_witness:
  "u_dtmf_sequence DTMF_new = None \<and> generate_raw_data DTMF_new = (Some AttributeError, DTMF_new)"
  using generate_raw_data_no_sequence [of DTMF_new] by (simp add: DTMF_new_def)

lemma generate_tone_silence:
  "generate_tone 0 0 d =
     (case number_of_samples d of Inl e \<Rightarrow> Inl e | Inr n \<Rightarrow> Inr (replicate (nat n) 0))"
proof -
  have "tone_precondition 0 0" by (simp add: tone_precondition_def)
  moreover have "map (tone_sample 0 0) xs = replicate (length xs) 0" for xs
    by (induction xs) (simp_all add: tone_sample_silence)
  ultimately show ?thesis using generate_tone_ok[of 0 0 d]
    by (simp add: length_py_range split: sum.splits)
qed

lemma frequency_map_S: "FREQUENCY_MAP ''S'' = Some (0, 0)"
  by (simp add: FREQUENCY_MAP_def)

lemma number_of_samples_50: "number_of_samples 50 = Inr 2205"
  using number_of_samples_exact[of 50] by simp

text \<open>
  Claim C5. The symbol \<open>S\<close> maps to the pair (0, 0). For every duration, whenever
  \<open>generate_tone\<close> returns a buffer for (0, 0) it consists of zeros only (it raises
  only where the sample count itself overflows), and the same holds for the waveform
  stored for the one-entry sequence \<open>[("S", d)]\<close>. For durations of at most
  25 * 10^12 ms in absolute value the buffer has 44100 * d / 1000 samples, truncated;
  for \<open>[("S", 50)]\<close> the waveform has exactly 2205 samples, all 0.
\<close>

theorem silence_is_zero:
  "FREQUENCY_MAP ''S'' = Some (0, 0)
   \<and> generate_tone 0 0 d
       = (case number_of_samples d of Inl e \<Rightarrow> Inl e | Inr n \<Rightarrow> Inr (replicate (nat n) 0))
   \<and> generate_raw_data \<lparr>u_dtmf_sequence = Some [PyTuple [PyStr ''S'', PyInt d]], u_raw_data = r\<rparr>
       = (case number_of_samples d of
            Inl e \<Rightarrow> (Some e, \<lparr>u_dtmf_sequence = Some [PyTuple [PyStr ''S'', PyInt d]], u_raw_data = r\<rparr>)
          | Inr n \<Rightarrow> (None, \<lparr>u_dtmf_sequence = Some [PyTuple [PyStr ''S'', PyInt d]],
                             u_raw_data = Some (replicate (nat n) 0)\<rparr>))
   \<and> (\<bar>d\<bar> \<le> 25000000000000
        \<longrightarrow> generate_tone 0 0 d = Inr (replicate (nat (44100 * d div 1000)) 0))
   \<and> number_of_samples 50 = Inr 2205
   \<and> raw_of [PyTuple [PyStr ''S'', PyInt 50]] = Some (replicate 2205 0)"
proof -
  have "generate_tone 0 0 d = Inr (replicate (nat (44100 * d div 1000)) 0)"
    if "\<bar>d\<bar> \<le> 25000000000000"
  proof -
    from number_of_samples_count[OF that] obtain n where "number_of_samples d = Inr n"
      and "nat n = nat (44100 * d div 1000)" by blast
    then show ?thesis by (simp add: generate_tone_silence)
  qed
  then show ?thesis
    by (simp add: generate_raw_data_def raw_of_def frequency_map_S generate_tone_silence
        number_of_samples_50 split: sum.splits)
qed

theorem silence_is_zero_witness:
  "\<bar>50 :: int\<bar> \<le> 25000000000000
   \<and> generate_tone 0 0 50 = Inr (replicate 2205 0)
   \<and> generate_raw_data \<lparr>u_dtmf_sequence = Some [PyTuple [PyStr ''S'', PyInt 50]], u_raw_data = None\<rparr>
       = (None, \<lparr>u_dtmf_sequence = Some [PyTuple [PyStr ''S'', PyInt 50]],
                 u_raw_data = Some (replicate 2205 0)\<rparr>)"
  using silence_is_zero [of 50 None] by simp

text \<open>
  Claim C8. For every frequency pair that passes the two assertions and every duration,
  each sample of the buffer \<open>generate_tone\<close> returns lies between -32767 and 32767. The
  call returns a buffer whenever 441 * |d| is at most 10 * 2^1023; beyond that the
  sample count overflows and the only error is OverflowError.
\<close>

theorem generate_tone_in_range:
  "tone_precondition f1 f2 \<Longrightarrow>
   (case generate_tone f1 f2 d of
      Inl e \<Rightarrow> e = OverflowError \<and> 10 * 2 ^ 1023 < \<bar>441 * d\<bar>
    | Inr buf \<Rightarrow> list_all (\<lambda>x. - 32767 \<le> x \<and> x \<le> 32767) buf)"
  using number_of_samples_raises[of d]
  by (simp add: generate_tone_ok list_all_iff tone_sample_bounds split: sum.splits)

theorem generate_tone_in_range_witness:
  "tone_precondition 697 1209 \<and>
   (\<exists>buf. generate_tone 697 1209 100 = Inr buf \<and> length buf = 4410
          \<and> list_all (\<lambda>x. - 32767 \<le> x \<and> x \<le> 32767) buf)"
proof -
  have pre: "tone_precondition 697 1209"
    by (simp add: tone_precondition_def ROW_FREQ_def COL_FREQ_def)
  have "number_of_samples 100 = Inr 4410" using number_of_samples_exact[of 100] by simp
  with generate_tone_ok[OF pre, of 100]
  have g: "generate_tone 697 1209 100 = Inr (map (tone_sample 697 1209) (py_range 4410))" by simp
  from generate_tone_in_range[OF pre, of 100] g pre show ?thesis
    by (simp add: length_py_range)
qed

lemma generate_tone_negative:
  assumes "tone_precondition f1 f2" "d < 0" "\<bar>441 * d\<bar> \<le> 10 * 2 ^ 1023"
  shows "generate_tone f1 f2 d = Inr []"
proof -
  from number_of_samples_negative[OF assms(2,3)] obtain n where n: "number_of_samples d = Inr n"
    and "n \<le> 0" by blast
  then have "py_range n = []" using length_py_range[of n] by simp
  with generate_tone_ok[OF assms(1), of d] n show ?thesis by simp
qed

text \<open>
  Claim C10, amended. An entry with a negative integer duration, as a list or as a
  tuple, put anywhere into a list that passes validation, still passes validation; and
  for a negative duration d with 441 * |d| at most 10 * 2^1023 (d above about
  -2 * 10^307) \<open>generate_tone\<close> returns the empty buffer, not an error.
\<close>

theorem negative_duration_accepted:
  assumes "d < 0"
    and "\<bar>441 * d\<bar> \<le> 10 * 2 ^ 1023"
    and "dtmf_sequence_is_valid (PyList (before @ after)) = Inr True"
    and "tone_precondition f1 f2"
  shows "dtmf_sequence_is_valid (PyList (before @ [PyList [PyStr s, PyInt d]] @ after)) = Inr True
         \<and> dtmf_sequence_is_valid (PyList (before @ [PyTuple [PyStr s, PyInt d]] @ after)) = Inr True
         \<and> generate_tone f1 f2 d = Inr []"
proof -
  from valid_True_entries[OF assms(3)] obtain es where es: "map entry_of (before @ after) = map Some es"
    by blast
  then have b: "map entry_of before = map Some (take (length before) es)"
    and a: "map entry_of after = map Some (drop (length before) es)"
    by (metis append_eq_conv_conj length_map map_append take_map drop_map)+
  have "map entry_of (before @ [PyList [PyStr s, PyInt d]] @ after)
        = map Some (take (length before) es @ [(s, d)] @ drop (length before) es)"
    using a b by simp
  moreover have "map entry_of (before @ [PyTuple [PyStr s, PyInt d]] @ after)
        = map Some (take (length before) es @ [(s, d)] @ drop (length before) es)"
    using a b by simp
  ultimately show ?thesis
    using valid_entries generate_tone_negative[OF assms(4,1,2)] by blast
qed

theorem negative_duration_accepted_witness:
  "(- 5 :: int) < 0
   \<and> \<bar>441 * (- 5 :: int)\<bar> \<le> 10 * 2 ^ 1023
   \<and> dtmf_sequence_is_valid (PyList ([PyList [PyStr ''1'', PyInt 100]] @ [PyTuple [PyStr ''S'', PyInt 50]])) = Inr True
   \<and> tone_precondition 697 1209
   \<and> dtmf_sequence_is_valid (PyList ([PyList [PyStr ''1'', PyInt 100]] @ [PyList [PyStr ''2'', PyInt (- 5)]]
        @ [PyTuple [PyStr ''S'', PyInt 50]])) = Inr True
   \<and> dtmf_sequence_is_valid (PyList ([PyList [PyStr ''1'', PyInt 100]] @ [PyTuple [PyStr ''2'', PyInt (- 5)]]
        @ [PyTuple [PyStr ''S'', PyInt 50]])) = Inr True
   \<and> generate_tone 697 1209 (- 5) = Inr []"
  using negative_duration_accepted [of "- 5" "[PyList [PyStr ''1'', PyInt 100]]"
      "[PyTuple [PyStr ''S'', PyInt 50]]" 697 1209 "''2''"]
  by (simp add: tone_precondition_def ROW_FREQ_def COL_FREQ_def VALID_SEQUENCE_TYPES_def)

theorem negative_duration_overflow_counterexample:
  "- (10 ^ 400) < (0::int)
   \<and> dtmf_sequence_is_valid (PyList [PyList [PyStr ''1'', PyInt (- (10 ^ 400))]]) = Inr True
   \<and> tone_precondition 697 1209
   \<and> generate_tone 697 1209 (- (10 ^ 400)) = Inl OverflowError"
proof -
  have pre: "tone_precondition 697 1209"
    by (simp add: tone_precondition_def ROW_FREQ_def COL_FREQ_def)
  have "(10::int) * 2 ^ 1024 \<le> \<bar>441 * (- (10 ^ 400))\<bar>" by simp
  from number_of_samples_overflow[OF this] generate_tone_ok[OF pre, of "- (10 ^ 400)"]
  have "generate_tone 697 1209 (- (10 ^ 400)) = Inl OverflowError" by simp
  with pre show ?thesis by (simp add: VALID_SEQUENCE_TYPES_def)
qed

section \<open>The sample count against rounding\<close>

lemma symbol_tones_known:
  "list_all (\<lambda>e. FREQUENCY_MAP (fst e) \<noteq> None \<and> \<bar>snd e\<bar> \<le> 25000000000000) es \<Longrightarrow>
   \<exists>bufs. map symbol_tone es = map Inr bufs
          \<and> length (concat bufs) = sum_list (map (\<lambda>e. nat (44100 * snd e div 1000)) es)"
proof (induction es)
  case Nil
  then show ?case by simp
next
  case (Cons e es)
  then obtain bufs where bufs: "map symbol_tone es = map Inr bufs"
    and len: "length (concat bufs) = sum_list (map (\<lambda>e. nat (44100 * snd e div 1000)) es)"
    by auto
  from Cons.prems have "FREQUENCY_MAP (fst e) \<noteq> None" "\<bar>snd e\<bar> \<le> 25000000000000" by simp_all
  from symbol_tone_known[OF this] obtain b where b: "symbol_tone e = Inr b"
    and lb: "length b = nat (44100 * snd e div 1000)" by blast
  from bufs len b lb have "map symbol_tone (e # es) = map Inr (b # bufs)
    \<and> length (concat (b # bufs)) = sum_list (map (\<lambda>e. nat (44100 * snd e div 1000)) (e # es))"
    by simp
  then show ?case by blast
qed

lemma generate_raw_data_entries:
  assumes "map entry_of items = map Some es" and "map symbol_tone es = map Inr bufs"
  shows "generate_raw_data (self\<lparr>u_dtmf_sequence := Some items\<rparr>)
         = (None, self\<lparr>u_dtmf_sequence := Some items, u_raw_data := Some (concat bufs)\<rparr>)"
  using raw_loop_entries[OF assms, of "[]"] by (simp add: generate_raw_data_def)

lemma generate_tone_length:
  assumes "tone_precondition f1 f2" and "\<bar>d\<bar> \<le> 25000000000000"
  shows "\<exists>buf. generate_tone f1 f2 d = Inr buf \<and> length buf = nat (44100 * d div 1000)"
proof -
  from number_of_samples_count[OF assms(2)] obtain n where "number_of_samples d = Inr n"
    and "nat n = nat (44100 * d div 1000)" by blast
  with generate_tone_ok[OF assms(1), of d] show ?thesis by (simp add: length_py_range)
qed

text \<open>
  Claim C3, amended. For every sequence that passes validation, whose symbols are all in
  the table and whose durations are at most 25 * 10^12 ms in absolute value,
  \<open>generate_raw_data\<close> stores a waveform whose number of samples is the sum over the
  entries of 44100 * durationMs / 1000 truncated (the floor for a non-negative duration,
  0 for a negative one), not rounded; a single call of \<open>generate_tone\<close> with such a
  duration yields that many samples.
\<close>

theorem sample_count_truncates:
  "(dtmf_sequence_is_valid (PyList items) = Inr True
      \<and> list_all (\<lambda>item. FREQUENCY_MAP (entry_symbol item) \<noteq> None) items
      \<and> list_all (\<lambda>item. \<bar>entry_duration item\<bar> \<le> 25000000000000) items
    \<longrightarrow> (\<exists>data. generate_raw_data (self\<lparr>u_dtmf_sequence := Some items\<rparr>)
                 = (None, self\<lparr>u_dtmf_sequence := Some items, u_raw_data := Some data\<rparr>)
               \<and> length data = sum_list (map (\<lambda>item. nat (44100 * entry_duration item div 1000)) items)))
   \<and> (tone_precondition f1 f2 \<and> \<bar>d\<bar> \<le> 25000000000000
        \<longrightarrow> (\<exists>buf. generate_tone f1 f2 d = Inr buf \<and> length buf = nat (44100 * d div 1000)))"
proof (intro conjI impI, elim conjE)
  assume v: "dtmf_sequence_is_valid (PyList items) = Inr True"
    and k: "list_all (\<lambda>item. FREQUENCY_MAP (entry_symbol item) \<noteq> None) items"
    and b: "list_all (\<lambda>item. \<bar>entry_duration item\<bar> \<le> 25000000000000) items"
  define es where "es = map (\<lambda>item. (entry_symbol item, entry_duration item)) items"
  from valid_True_entries[OF v] have ent: "map entry_of items = map Some es"
    by (simp only: es_def)
  from k b have "list_all (\<lambda>e. FREQUENCY_MAP (fst e) \<noteq> None \<and> \<bar>snd e\<bar> \<le> 25000000000000) es"
    by (simp add: es_def list_all_iff)
  from symbol_tones_known[OF this] obtain bufs where bufs: "map symbol_tone es = map Inr bufs"
    and len: "length (concat bufs) = sum_list (map (\<lambda>e. nat (44100 * snd e div 1000)) es)"
    by blast
  have "sum_list (map (\<lambda>e. nat (44100 * snd e div 1000)) es)
        = sum_list (map (\<lambda>item. nat (44100 * entry_duration item div 1000)) items)"
    by (simp add: es_def comp_def)
  with generate_raw_data_entries[OF ent bufs, of self] len
  show "\<exists>data. generate_raw_data (self\<lparr>u_dtmf_sequence := Some items\<rparr>)
                 = (None, self\<lparr>u_dtmf_sequence := Some items, u_raw_data := Some data\<rparr>)
               \<and> length data = sum_list (map (\<lambda>item. nat (44100 * entry_duration item div 1000)) items)"
    by (intro exI[of _ "concat bufs"]) simp
next
  assume "tone_precondition f1 f2 \<and> \<bar>d\<bar> \<le> 25000000000000"
  then show "\<exists>buf. generate_tone f1 f2 d = Inr buf \<and> length buf = nat (44100 * d div 1000)"
    using generate_tone_length by blast
qed

theorem sample_count_truncates_witness:
  "(dtmf_sequence_is_valid (PyList [PyTuple [PyStr ''1'', PyInt 15], PyList [PyStr ''S'', PyInt 6]]) = Inr True
      \<and> list_all (\<lambda>item. FREQUENCY_MAP (entry_symbol item) \<noteq> None)
           [PyTuple [PyStr ''1'', PyInt 15], PyList [PyStr ''S'', PyInt 6]]
      \<and> list_all (\<lambda>item. \<bar>entry_duration item\<bar> \<le> 25000000000000)
           [PyTuple [PyStr ''1'', PyInt 15], PyList [PyStr ''S'', PyInt 6]])
   \<and> (\<exists>data. generate_raw_data (DTMF_new\<lparr>u_dtmf_sequence :=
                    Some [PyTuple [PyStr ''1'', PyInt 15], PyList [PyStr ''S'', PyInt 6]]\<rparr>)
                 = (None, DTMF_new\<lparr>u_dtmf_sequence :=
                    Some [PyTuple [PyStr ''1'', PyInt 15], PyList [PyStr ''S'', PyInt 6]],
                    u_raw_data := Some data\<rparr>)
               \<and> length data = 661 + 264)
   \<and> (tone_precondition 697 1209 \<and> \<bar>15 :: int\<bar> \<le> 25000000000000)
   \<and> (\<exists>buf. generate_tone 697 1209 15 = Inr buf \<and> length buf = 661)"
  using sample_count_truncates [of "[PyTuple [PyStr ''1'', PyInt 15], PyList [PyStr ''S'', PyInt 6]]"
      DTMF_new 697 1209 15]
  by (simp add: VALID_SEQUENCE_TYPES_def entry_symbol_def entry_duration_def FREQUENCY_MAP_def
      tone_precondition_def ROW_FREQ_def COL_FREQ_def)

theorem sample_count_round_counterexample:
  "dtmf_sequence_is_valid (PyList [PyTuple [PyStr ''S'', PyInt 6]]) = Inr True
   \<and> map_option length (raw_of [PyTuple [PyStr ''S'', PyInt 6]]) = Some 264
   \<and> nat (round (real_of_int SAMPLE_RATE * 6 / 1000)) = 265"
proof -
  have "number_of_samples 6 = Inr 264" using number_of_samples_exact[of 6] by simp
  then have "raw_of [PyTuple [PyStr ''S'', PyInt 6]] = Some (replicate 264 0)"
    by (simp add: generate_raw_data_def raw_of_def frequency_map_S generate_tone_silence)
  moreover have "round (real_of_int SAMPLE_RATE * 6 / 1000) = 265"
    by (simp add: SAMPLE_RATE_def round_def floor_eq_iff)
  ultimately show ?thesis by (simp add: VALID_SEQUENCE_TYPES_def)
qed

section \<open>The container encoder: declared and written sample width\<close>

lemma struct_pack_i_length: "struct_pack_i i = Inr bs \<Longrightarrow> length bs = 4"
  by (auto simp: struct_pack_i_def Let_def split: if_splits)

lemma write_loop_length:
  "write_loop raw f = (None, f') \<Longrightarrow> length (frames f') = length (frames f) + 4 * length raw"
proof (induction raw arbitrary: f)
  case Nil
  then show ?case by simp
next
  case (Cons i raw)
  then obtain bs where bs: "struct_pack_i i = Inr bs"
    and rest: "write_loop raw (f\<lparr>frames := frames f @ bs\<rparr>) = (None, f')"
    by (auto split: sum.splits)
  from Cons.IH[OF rest] struct_pack_i_length[OF bs] show ?case by simp
qed

text \<open>
  Claim C1, evaluated on the code. \<open>save_wave_file\<close> on the three samples 0, 100, -100
  declares a sample width of 2 bytes and 3 frames in the header, and hands twelve bytes
  to the writer: every sample is written with four bytes, not with the declared two.
\<close>
theorem save_wave_file_writes_four_bytes:
  "save_wave_file ''test.wav'' (\<lparr>u_dtmf_sequence = None, u_raw_data = Some [0, 100, - 100]\<rparr>, Map.empty)
   = (None, \<lparr>u_dtmf_sequence = None, u_raw_data = Some [0, 100, - 100]\<rparr>,
      [''test.wav'' \<mapsto> WaveFile \<lparr>nchannels = 1, sampwidth = 2, framerate = 44100, nframes = 3,
          comptype = ''NONE'', compname = ''Uncompressed'',
          frames = [0, 0, 0, 0, 100, 0, 0, 0, 156, 255, 255, 255], closed = True\<rparr>])"
  by (simp add: save_wave_file_def wave_open_def struct_pack_i_def NUMBER_OF_CHANNELS_def
      SAMPLE_WIDTH_def SAMPLE_RATE_def COMPRESSION_TYPE_def COMPRESSION_NAME_def numeral_3_eq_3)

section \<open>The setter and the convenience method\<close>

lemma setter_invalid:
  assumes "(case inp of PyStr txt \<Rightarrow> loads txt | _ \<Rightarrow> Inr inp) = Inr v"
    and "dtmf_sequence_is_valid v = Inr False"
  shows "dtmf_sequence_setter loads inp self = (None, self)"
  using assms unfolding dtmf_sequence_setter_def
  by (cases v) (simp_all del: dtmf_sequence_is_valid.simps)

lemma setter_valid:
  assumes "(case inp of PyStr txt \<Rightarrow> loads txt | _ \<Rightarrow> Inr inp) = Inr (PyList items)"
    and "dtmf_sequence_is_valid (PyList items) = Inr True"
  shows "dtmf_sequence_setter loads inp self = (None, self\<lparr>u_dtmf_sequence := Some items\<rparr>)"
  using assms unfolding dtmf_sequence_setter_def
  by (simp del: dtmf_sequence_is_valid.simps)

lemma malformed_invalid: "malformed v \<Longrightarrow> dtmf_sequence_is_valid v = Inr False"
proof (cases v)
  case (PyList items)
  assume m: "malformed v"
  show ?thesis
  proof (cases "list_ex (\<lambda>item. type_of item \<notin> set VALID_SEQUENCE_TYPES) items")
    case True
    then have "\<not> list_all (\<lambda>item. type_of item \<in> set VALID_SEQUENCE_TYPES) items"
      by (auto simp: list_ex_iff list_all_iff)
    with count_False_zero[of "\<lambda>item. type_of item \<in> set VALID_SEQUENCE_TYPES" items]
    have "count_list (map (\<lambda>item. type_of item \<in> set VALID_SEQUENCE_TYPES) items) False \<noteq> 0"
      by blast
    with PyList show ?thesis by simp
  next
    case False
    with m PyList have recs: "list_all is_record items"
      and bad: "list_ex (\<lambda>item. entry_of item = None) items" by simp_all
    from False have "list_all (\<lambda>item. type_of item \<in> set VALID_SEQUENCE_TYPES) items"
      by (auto simp: list_ex_iff list_all_iff)
    with count_False_zero[of "\<lambda>item. type_of item \<in> set VALID_SEQUENCE_TYPES" items]
    have c: "count_list (map (\<lambda>item. type_of item \<in> set VALID_SEQUENCE_TYPES) items) False = 0"
      by blast
    from recs bad have "check_items items = Inr False"
    proof (induction items)
      case Nil
      then show ?case by simp
    next
      case (Cons item items)
      from Cons.prems(1) have rec: "is_record item" and recs: "list_all is_record items" by simp_all
      from rec obtain xs where xs: "item = PyList xs \<or> item = PyTuple xs" and len: "2 \<le> length xs"
        by (cases item) auto
      from len obtain a b zs where abz: "xs = a # b # zs"
        by (cases xs; cases "tl xs") auto
      show ?case
      proof (cases "entry_of item")
        case None
        with xs abz show ?thesis by (cases a; cases b) auto
      next
        case (Some e)
        with Cons.prems(2) have "list_ex (\<lambda>item. entry_of item = None) items" by simp
        from Cons.IH[OF recs this] Some entry_of_SomeD[of item "fst e" "snd e"] show ?thesis
          by simp
      qed
    qed
    with c PyList show ?thesis by simp
  qed
qed simp_all

text \<open>
  Claim C2, amended. For every malformed candidate of these kinds: the top-level value
  is not a list; or an element is neither a list, a tuple nor a set; or every element is
  a record of at least two components and one of them does not start with a string and
  an integer; given as a value or as text that decodes to it: the validator returns
  \<open>False\<close>, the setter raises nothing and leaves the instance as it was, so nothing is
  synthesized from the candidate; on a new instance \<open>create_dtmf_wave_file\<close> then fails
  with AttributeError and writes no file.
\<close>

theorem setter_ignores_rejected:
  assumes "(case inp of PyStr txt \<Rightarrow> loads txt | _ \<Rightarrow> Inr inp) = Inr v"
    and "malformed v"
  shows "dtmf_sequence_is_valid v = Inr False
         \<and> dtmf_sequence_setter loads inp self = (None, self)
         \<and> create_dtmf_wave_file loads inp file_path dump (DTMF_new, fs)
             = (Some AttributeError, DTMF_new, fs)"
  using setter_invalid[OF assms(1) malformed_invalid[OF assms(2)]] malformed_invalid[OF assms(2)]
  by (simp add: create_dtmf_wave_file_def generate_raw_data_def DTMF_new_def
      del: dtmf_sequence_is_valid.simps)

theorem setter_ignores_rejected_witness:
  "(case PyList [PyList [PyStr ''1'', PyInt 100], PyTuple [PyInt 1, PyStr ''x'']] of
      PyStr txt \<Rightarrow> (\<lambda>t. Inl JSONDecodeError) txt
    | _ \<Rightarrow> Inr (PyList [PyList [PyStr ''1'', PyInt 100], PyTuple [PyInt 1, PyStr ''x'']]))
     = Inr (PyList [PyList [PyStr ''1'', PyInt 100], PyTuple [PyInt 1, PyStr ''x'']])
   \<and> malformed (PyList [PyList [PyStr ''1'', PyInt 100], PyTuple [PyInt 1, PyStr ''x'']])
   \<and> dtmf_sequence_is_valid (PyList [PyList [PyStr ''1'', PyInt 100], PyTuple [PyInt 1, PyStr ''x'']])
       = Inr False
   \<and> dtmf_sequence_setter (\<lambda>t. Inl JSONDecodeError)
        (PyList [PyList [PyStr ''1'', PyInt 100], PyTuple [PyInt 1, PyStr ''x'']])
        \<lparr>u_dtmf_sequence = Some [PyTuple [PyStr ''S'', PyInt 50]], u_raw_data = None\<rparr>
       = (None, \<lparr>u_dtmf_sequence = Some [PyTuple [PyStr ''S'', PyInt 50]], u_raw_data = None\<rparr>)
   \<and> create_dtmf_wave_file (\<lambda>t. Inl JSONDecodeError)
        (PyList [PyList [PyStr ''1'', PyInt 100], PyTuple [PyInt 1, PyStr ''x'']]) ''test.wav'' False
        (DTMF_new, Map.empty) = (Some AttributeError, DTMF_new, Map.empty)"
  using setter_ignores_rejected [of "PyList [PyList [PyStr ''1'', PyInt 100], PyTuple [PyInt 1, PyStr ''x'']]"
      "\<lambda>t. Inl JSONDecodeError"
      "PyList [PyList [PyStr ''1'', PyInt 100], PyTuple [PyInt 1, PyStr ''x'']]"
      "\<lparr>u_dtmf_sequence = Some [PyTuple [PyStr ''S'', PyInt 50]], u_raw_data = None\<rparr>"
      "''test.wav''" False Map.empty]
  by (simp add: VALID_SEQUENCE_TYPES_def)

theorem setter_raises_counterexample:
  "malformed (PyTuple [PyTuple [PyStr ''1'', PyInt 100]])
   \<and> fst (dtmf_sequence_setter (\<lambda>t. Inl JSONDecodeError) (PyTuple [PyTuple [PyStr ''1'', PyInt 100]]) DTMF_new) = None
   \<and> malformed (PyList [PyInt 7])
   \<and> fst (dtmf_sequence_setter (\<lambda>t. Inl JSONDecodeError) (PyList [PyInt 7]) DTMF_new) = None
   \<and> malformed (PyList [PyList [PyInt 1, PyStr ''x'']])
   \<and> fst (dtmf_sequence_setter (\<lambda>t. Inl JSONDecodeError) (PyList [PyList [PyInt 1, PyStr ''x'']]) DTMF_new) = None"
  by (simp add: dtmf_sequence_setter_def VALID_SEQUENCE_TYPES_def)

lemma generate_raw_data_unknown:
  assumes "dtmf_sequence_is_valid (PyList items) = Inr True"
    and "list_ex (\<lambda>item. FREQUENCY_MAP (entry_symbol item) = None) items"
  shows "\<exists>e. generate_raw_data (self\<lparr>u_dtmf_sequence := Some items\<rparr>)
               = (Some e, self\<lparr>u_dtmf_sequence := Some items\<rparr>)
             \<and> (e = KeyError \<or> e = OverflowError)
             \<and> (list_all (\<lambda>item. \<bar>441 * entry_duration item\<bar> \<le> 10 * 2 ^ 1023) items
                  \<longrightarrow> e = KeyError)"
proof -
  define es where "es = map (\<lambda>item. (entry_symbol item, entry_duration item)) items"
  from valid_True_entries[OF assms(1)] have ent: "map entry_of items = map Some es"
    by (simp only: es_def)
  from assms(2) have "list_ex (\<lambda>e. FREQUENCY_MAP (fst e) = None) es"
    by (simp add: es_def list_ex_iff)
  from raw_loop_unknown[OF ent this, of "[]"] obtain e where e: "raw_loop items [] = Inl e"
    "e = KeyError \<or> e = OverflowError"
    "list_all (\<lambda>e. \<bar>441 * snd e\<bar> \<le> 10 * 2 ^ 1023) es \<longrightarrow> e = KeyError" by blast
  have "list_all (\<lambda>e. \<bar>441 * snd e\<bar> \<le> 10 * 2 ^ 1023) es
        = list_all (\<lambda>item. \<bar>441 * entry_duration item\<bar> \<le> 10 * 2 ^ 1023) items"
    by (simp add: es_def list_all_iff)
  with e show ?thesis by (intro exI[of _ e]) (simp add: generate_raw_data_def)
qed

text \<open>
  Claim C6. For a sequence that passes validation and contains a symbol without an entry
  in the table, \<open>generate_raw_data\<close> raises and \<open>_raw_data\<close> keeps the value it had (no
  partial waveform is stored); \<open>create_dtmf_wave_file\<close>, given the sequence as a list or
  as text decoding to it, raises the same error and leaves the file system untouched.
  The error is KeyError, unless an entry before the unknown symbol has a duration whose
  sample count overflows (441 * |d| above 10 * 2^1023): then it is OverflowError.
\<close>

theorem unknown_symbol_fails:
  assumes "dtmf_sequence_is_valid (PyList items) = Inr True"
    and "list_ex (\<lambda>item. FREQUENCY_MAP (entry_symbol item) = None) items"
    and "(case inp of PyStr txt \<Rightarrow> loads txt | _ \<Rightarrow> Inr inp) = Inr (PyList items)"
  shows "\<exists>e. (e = KeyError \<or> e = OverflowError)
             \<and> (list_all (\<lambda>item. \<bar>441 * entry_duration item\<bar> \<le> 10 * 2 ^ 1023) items
                  \<longrightarrow> e = KeyError)
             \<and> generate_raw_data (self\<lparr>u_dtmf_sequence := Some items\<rparr>)
                 = (Some e, self\<lparr>u_dtmf_sequence := Some items\<rparr>)
             \<and> create_dtmf_wave_file loads inp file_path dump (self, fs)
                 = (Some e, self\<lparr>u_dtmf_sequence := Some items\<rparr>, fs)"
proof -
  from generate_raw_data_unknown[OF assms(1,2), of self] obtain e
    where e: "generate_raw_data (self\<lparr>u_dtmf_sequence := Some items\<rparr>)
               = (Some e, self\<lparr>u_dtmf_sequence := Some items\<rparr>)"
      "e = KeyError \<or> e = OverflowError"
      "list_all (\<lambda>item. \<bar>441 * entry_duration item\<bar> \<le> 10 * 2 ^ 1023) items \<longrightarrow> e = KeyError"
    by blast
  from setter_valid[OF assms(3,1), of self] e(1)
  have "create_dtmf_wave_file loads inp file_path dump (self, fs)
        = (Some e, self\<lparr>u_dtmf_sequence := Some items\<rparr>, fs)"
    by (simp add: create_dtmf_wave_file_def)
  with e show ?thesis by blast
qed

theorem unknown_symbol_fails_witness:
  "dtmf_sequence_is_valid (PyList [PyTuple [PyStr ''1'', PyInt 100], PyTuple [PyStr ''E'', PyInt 100]]) = Inr True
   \<and> list_ex (\<lambda>item. FREQUENCY_MAP (entry_symbol item) = None)
        [PyTuple [PyStr ''1'', PyInt 100], PyTuple [PyStr ''E'', PyInt 100]]
   \<and> generate_raw_data (DTMF_new\<lparr>u_dtmf_sequence := Some [PyTuple [PyStr ''1'', PyInt 100], PyTuple [PyStr ''E'', PyInt 100]]\<rparr>)
       = (Some KeyError, DTMF_new\<lparr>u_dtmf_sequence := Some [PyTuple [PyStr ''1'', PyInt 100], PyTuple [PyStr ''E'', PyInt 100]]\<rparr>)
   \<and> create_dtmf_wave_file (\<lambda>t. Inl JSONDecodeError)
        (PyList [PyTuple [PyStr ''1'', PyInt 100], PyTuple [PyStr ''E'', PyInt 100]]) ''test.wav'' True (DTMF_new, Map.empty)
       = (Some KeyError, DTMF_new\<lparr>u_dtmf_sequence := Some [PyTuple [PyStr ''1'', PyInt 100], PyTuple [PyStr ''E'', PyInt 100]]\<rparr>, Map.empty)"
  using unknown_symbol_fails [of "[PyTuple [PyStr ''1'', PyInt 100], PyTuple [PyStr ''E'', PyInt 100]]"
      "PyList [PyTuple [PyStr ''1'', PyInt 100], PyTuple [PyStr ''E'', PyInt 100]]"
      "\<lambda>t. Inl JSONDecodeError" DTMF_new "''test.wav''" True Map.empty]
  by (auto simp add: VALID_SEQUENCE_TYPES_def entry_symbol_def entry_duration_def FREQUENCY_MAP_def)

section \<open>Concatenation in entry order\<close>

lemma raw_loop_step:
  "raw_loop (item # rest) acc
   = (case raw_loop [item] [] of Inl e \<Rightarrow> Inl e | Inr t \<Rightarrow> raw_loop rest (acc @ t))"
  by (simp split: sum.splits pyval.splits prod.splits)

lemma raw_of_loop:
  "raw_of items = (case raw_loop items [] of Inl e \<Rightarrow> None | Inr data \<Rightarrow> Some data)"
  by (simp add: raw_of_def generate_raw_data_def split: sum.splits)

lemma raw_loop_singletons:
  "map (\<lambda>item. raw_of [item]) items = map Some bufs \<Longrightarrow> raw_loop items acc = Inr (acc @ concat bufs)"
proof (induction items arbitrary: bufs acc)
  case Nil
  then show ?case by simp
next
  case (Cons item items)
  from Cons.prems obtain b bufs' where bufs: "bufs = b # bufs'"
    and b: "raw_of [item] = Some b"
    and rest: "map (\<lambda>item. raw_of [item]) items = map Some bufs'"
    by (cases bufs) auto
  from b have one: "raw_loop [item] [] = Inr b"
    by (cases "raw_loop [item] []") (simp_all add: raw_of_loop del: raw_loop.simps)
  have "raw_loop (item # items) acc = raw_loop items (acc @ b)"
    by (simp only: raw_loop_step[of item items acc] one sum.case)
  also have "\<dots> = Inr ((acc @ b) @ concat bufs')" by (rule Cons.IH[OF rest])
  finally show ?case by (simp add: bufs)
qed

lemma raw_of_singletons:
  "map (\<lambda>item. raw_of [item]) items = map Some bufs \<Longrightarrow> raw_of items = Some (concat bufs)"
  using raw_loop_singletons[of items bufs "[]"] by (simp add: raw_of_loop)

lemma reorder_singletons:
  assumes "map (\<lambda>item. raw_of [item]) items = map Some bufs"
    and "list_all (\<lambda>j. j < length items) js"
  shows "map (\<lambda>item. raw_of [item]) (map ((!) items) js) = map Some (map ((!) bufs) js)"
proof -
  from assms(1) have len: "length bufs = length items" by (metis length_map)
  have "raw_of [items ! j] = Some (bufs ! j)" if "j < length items" for j
  proof -
    from that have "map (\<lambda>item. raw_of [item]) items ! j = raw_of [items ! j]" by simp
    moreover from that len have "map Some bufs ! j = Some (bufs ! j)" by simp
    ultimately show ?thesis using assms(1) by simp
  qed
  with assms(2) show ?thesis by (simp add: list_all_iff)
qed

text \<open>
  Claim C7. When each entry alone synthesizes to its sub-buffer, the waveform of the
  whole sequence is the concatenation of the sub-buffers in entry order, and for every
  permutation of the entries the waveform of the permuted sequence is the concatenation
  of the sub-buffers permuted in the same way.
\<close>
theorem concatenation_preserves_order:
  assumes "map (\<lambda>item. raw_of [item]) items = map Some bufs"
    and "mset js = mset [0..<length items]"
  shows "raw_of items = Some (concat bufs)
         \<and> raw_of (map ((!) items) js) = Some (concat (map ((!) bufs) js))"
proof -
  from assms(2) have "set js = {0..<length items}" by (metis mset_eq_setD set_upt)
  then have "list_all (\<lambda>j. j < length items) js" by (simp add: list_all_iff)
  from raw_of_singletons[OF reorder_singletons[OF assms(1) this]] raw_of_singletons[OF assms(1)]
  show ?thesis by simp
qed

lemma tone_sample_697_1209_6: "16383 \<le> tone_sample 697 1209 6"
proof -
  define a where "a = real_of_int 6 * 1.0 / real_of_int SAMPLE_RATE * real_of_int 697 * pi * 2"
  define b where "b = real_of_int 6 * 1.0 / real_of_int SAMPLE_RATE * real_of_int 1209 * pi * 2"
  have a: "pi / 6 \<le> a" "a \<le> pi / 2" by (simp_all add: a_def SAMPLE_RATE_def)
  have b: "pi / 6 \<le> b" "b \<le> pi / 2" by (simp_all add: b_def SAMPLE_RATE_def)
  have "sin (pi / 6) \<le> sin a" using a by (intro sin_monotone_2pi_le) simp_all
  moreover have "sin (pi / 6) \<le> sin b" using b by (intro sin_monotone_2pi_le) simp_all
  ultimately have "1 / 2 \<le> sin a" "1 / 2 \<le> sin b" by (simp_all add: sin_30)
  then have v: "16383 \<le> (sin a + sin b) / 2 * 32767" by simp
  then have "0 \<le> (sin a + sin b) / 2 * 32767" by linarith
  with v have "16383 \<le> py_int ((sin a + sin b) / 2 * 32767)"
    by (simp add: py_int_def le_floor_iff)
  then show ?thesis by (simp add: tone_sample_def a_def b_def scale_def)
qed

theorem concatenation_preserves_order_witness:
  "map (\<lambda>item. raw_of [item]) [PyTuple [PyStr ''1'', PyInt 1], PyTuple [PyStr ''S'', PyInt 1]]
     = map Some [map (tone_sample 697 1209) (py_range 44), replicate 44 0]
   \<and> mset [1, 0] = mset [0..<length [PyTuple [PyStr ''1'', PyInt 1], PyTuple [PyStr ''S'', PyInt 1]]]
   \<and> raw_of [PyTuple [PyStr ''1'', PyInt 1], PyTuple [PyStr ''S'', PyInt 1]]
       = Some (concat [map (tone_sample 697 1209) (py_range 44), replicate 44 0])
   \<and> raw_of (map ((!) [PyTuple [PyStr ''1'', PyInt 1], PyTuple [PyStr ''S'', PyInt 1]]) [1, 0])
       = Some (concat (map ((!) [map (tone_sample 697 1209) (py_range 44), replicate 44 0]) [1, 0]))
   \<and> concat [map (tone_sample 697 1209) (py_range 44), replicate 44 0]
       \<noteq> concat (map ((!) [map (tone_sample 697 1209) (py_range 44), replicate 44 0]) [1, 0])"
proof -
  define T where "T = map (tone_sample 697 1209) (py_range 44)"
  define Z where "Z = replicate 44 (0::int)"
  have n: "number_of_samples 1 = Inr 44" using number_of_samples_exact[of 1] by simp
  have pre: "tone_precondition 697 1209"
    by (simp add: tone_precondition_def ROW_FREQ_def COL_FREQ_def)
  have fm: "FREQUENCY_MAP ''1'' = Some (697, 1209)" by (simp add: FREQUENCY_MAP_def)
  have one: "raw_of [PyTuple [PyStr ''1'', PyInt 1]] = Some T"
    using generate_tone_ok[OF pre, of 1] n fm
    by (simp add: raw_of_def generate_raw_data_def T_def)
  have sil: "raw_of [PyTuple [PyStr ''S'', PyInt 1]] = Some Z"
    using n by (simp add: raw_of_def generate_raw_data_def frequency_map_S generate_tone_silence Z_def)
  have a: "map (\<lambda>item. raw_of [item]) [PyTuple [PyStr ''1'', PyInt 1], PyTuple [PyStr ''S'', PyInt 1]]
     = map Some [T, Z]"
    using one sil by simp
  have b: "mset [1, 0] = mset [0..<length [PyTuple [PyStr ''1'', PyInt 1], PyTuple [PyStr ''S'', PyInt 1]]]"
    by (simp add: upt_rec)
  have lenT: "length T = 44" by (simp add: T_def length_py_range)
  have "T ! 6 = tone_sample 697 1209 (py_range 44 ! 6)"
    unfolding T_def by (rule nth_map) (simp add: length_py_range)
  also have "py_range 44 ! 6 = 6" using py_range_nth[of 6 44] by simp
  finally have "16383 \<le> T ! 6" using tone_sample_697_1209_6 by simp
  then have "(T @ Z) ! 6 \<noteq> (Z @ T) ! 6"
    using lenT by (simp add: nth_append Z_def)
  then have differ: "concat [T, Z] \<noteq> concat (map ((!) [T, Z]) [1, 0])"
    by auto
  from concatenation_preserves_order[OF a b] a b differ show ?thesis
    unfolding T_def Z_def by blast
qed

end
